theory Spec2Isabelle
  imports Main "HOL-Library.Word"
begin

text \<open>
  A model of the PostgreSQL WAL prefaulter's agent: the functions of the agent that talk
  to PostgreSQL (\<open>dbState\<close>, \<open>queryLag\<close>, \<open>predictDBWALFilenames\<close>,
  \<open>getWALFilesDB\<close>, \<open>getPostgresVersion\<close>) and the worker and purge of the I/O
  cache. Go's multiple results are tuples, \<open>nil\<close> errors are \<open>None\<close>, a panic is a
  result of its own, and what the database, the file system and the absent packages
  answer is passed in as arguments.
\<close>

section \<open>Go values shared by the agent's functions\<close>

text \<open>
  A Go \<open>error\<close> is an interface value that may be \<open>nil\<close>: it is modelled as
  \<open>go_error option\<close>, \<open>None\<close> being \<open>nil\<close>. \<open>Wrapped e msg\<close> is what
  \<open>errors.Wrap(e, msg)\<close> of github.com/pkg/errors builds around a non-nil \<open>e\<close>.
\<close>

datatype go_error =
    ErrSyntax string
  | ErrRange string
  | ErrTooLong
  | ErrExternal string
  | Wrapped go_error string

text \<open>
  \<open>errors.Wrap\<close> and \<open>errors.Wrapf\<close>: "If err is nil, Wrap returns nil."
\<close>

fun Wrap :: "go_error option \<Rightarrow> string \<Rightarrow> go_error option" where
  "Wrap None msg = None"
| "Wrap (Some e) msg = Some (Wrapped e msg)"

text \<open>
  A Go call either returns or panics. \<open>IndexOutOfRange i n\<close> is the runtime panic
  "index out of range [i] with length n".
\<close>

datatype panic = IndexOutOfRange nat nat | PanicMsg string

datatype 'a go_ret = Return 'a | Panic panic

section \<open>Standard-library functions used by getPostgresVersion\<close>

subsection \<open>strconv.ParseUint(s, 10, bitSize)\<close>

definition is_digit :: "char \<Rightarrow> bool" where
  "is_digit c = ((48::nat) \<le> of_char c \<and> (of_char c :: nat) \<le> 57)"

definition digit_val :: "char \<Rightarrow> nat" where
  "digit_val c = (of_char c :: nat) - 48"

definition digit_char :: "nat \<Rightarrow> char" where
  "digit_char d = char_of (48 + d)"

definition maxUint64 :: nat where
  "maxUint64 = 2 ^ 64 - 1"

text \<open>
  The digit loop of \<open>ParseUint\<close> in base 10. \<open>n\<close> is the accumulator, \<open>s0\<close> the
  whole input (quoted in the error). A character that is not a decimal digit is a syntax
  error with value 0; an accumulator past the cutoff, or past \<open>maxVal\<close> after adding the
  digit, is a range error with value \<open>maxVal\<close>.
\<close>

fun ParseUint_loop :: "nat \<Rightarrow> string \<Rightarrow> nat \<Rightarrow> string \<Rightarrow> nat \<times> go_error option" where
  "ParseUint_loop maxVal s0 n [] = (n, None)"
| "ParseUint_loop maxVal s0 n (c # cs) =
     (if \<not> is_digit c then (0, Some (ErrSyntax s0))
      else if n \<ge> maxUint64 div 10 + 1 then (maxVal, Some (ErrRange s0))
      else (let n1 = n * 10 + digit_val c in
            if n1 > maxUint64 \<or> n1 > maxVal then (maxVal, Some (ErrRange s0))
            else ParseUint_loop maxVal s0 n1 cs))"

definition ParseUint :: "string \<Rightarrow> nat \<Rightarrow> nat \<times> go_error option" where
  "ParseUint s bitSize =
     (if s = [] then (0, Some (ErrSyntax s))
      else ParseUint_loop (2 ^ bitSize - 1) s 0 s)"

subsection \<open>The verb %d of fmt.Sprintf on an unsigned integer\<close>

function FormatUint :: "nat \<Rightarrow> string" where
  "FormatUint n =
     (if n < 10 then [digit_char n]
      else FormatUint (n div 10) @ [digit_char (n mod 10)])"
  by pat_completeness auto
termination
  by (relation "measure (\<lambda>n. n)") auto

declare FormatUint.simps [simp del]

subsection \<open>strings.Split(s, ".")\<close>

text \<open>
  \<open>Split\<close> on a one-character separator: the pieces between the separators, always at
  least one piece (\<open>Split("", ".")\<close> is one empty string). The accumulator \<open>cur\<close> is the
  piece being read.
\<close>

fun Split_acc :: "char \<Rightarrow> string \<Rightarrow> string \<Rightarrow> string list" where
  "Split_acc sep cur [] = [cur]"
| "Split_acc sep cur (c # cs) =
     (if c = sep then cur # Split_acc sep [] cs
      else Split_acc sep (cur @ [c]) cs)"

definition Split :: "string \<Rightarrow> char \<Rightarrow> string list" where
  "Split s sep = Split_acc sep [] s"

subsection \<open>bufio.Scanner: the first line of a buffer\<close>

text \<open>
  \<open>scanner.Scan()\<close> once with the default \<open>ScanLines\<close> split and \<open>scanner.Err()\<close>
  after it: the text before the first newline, without one trailing carriage return; the
  empty string for an empty buffer; \<open>ErrTooLong\<close> when the first 65536 bytes (the
  scanner's maximal token size) hold no newline.
\<close>

definition MaxScanTokenSize :: nat where
  "MaxScanTokenSize = 65536"

definition dropCR :: "string \<Rightarrow> string" where
  "dropCR s = (if s \<noteq> [] \<and> last s = CHR 0x0D then butlast s else s)"

definition scan_first_line :: "string \<Rightarrow> go_error + string" where
  "scan_first_line buf =
     (let pre = takeWhile (\<lambda>c. c \<noteq> CHR 0x0A) buf in
      if length pre \<ge> MaxScanTokenSize then Inl ErrTooLong
      else Inr (dropCR pre))"

section \<open>getPostgresVersion\<close>

text \<open>
  The part of \<open>getPostgresVersion\<close> after the first line of PG_VERSION has been read
  (source lines 407 to 426). The result is the pair \<open>(pgMajor, err)\<close>; \<open>pgMajor\<close> is
  the named result, still 0 at the first error return and the value \<open>ParseUint\<close>
  returned at the last one. \<open>parts[1]\<close> is read without a length check, so a line
  without a dot whose first number is below 10 panics.
\<close>

definition versionFromLine :: "string \<Rightarrow> (nat \<times> go_error option) go_ret" where
  "versionFromLine versionStringRaw =
     (let parts = Split versionStringRaw CHR ''.'';
          (first, err) = ParseUint (parts ! 0) 32
      in if err \<noteq> None
         then Return (0, Wrap err ''unable to parse first section of version'')
         else if first < 10 then
           (if length parts \<le> 1 then Panic (IndexOutOfRange 1 (length parts))
            else
              (let second = parts ! 1;
                   pgVersionString = FormatUint (first * 10) @ second @ ''00'';
                   (pgMajor, err2) = ParseUint pgVersionString 32
               in if err2 \<noteq> None
                  then Return (pgMajor, Wrap err2 ''unable to parse version back to integer'')
                  else Return (pgMajor, None)))
         else
           (let pgVersionString = FormatUint first @ ''0000'';
                (pgMajor, err2) = ParseUint pgVersionString 32
            in if err2 \<noteq> None
               then Return (pgMajor, Wrap err2 ''unable to parse version back to integer'')
               else Return (pgMajor, None)))"

text \<open>
  The whole function: \<open>readFile\<close> is what \<open>ioutil.ReadFile\<close> of
  \<open>pgDataPath/PG_VERSION\<close> returned.
\<close>

definition getPostgresVersion :: "go_error + string \<Rightarrow> (nat \<times> go_error option) go_ret" where
  "getPostgresVersion readFile =
     (case readFile of
        Inl err \<Rightarrow> Return (0, Wrap (Some err) ''unable to read PG_VERSION'')
      | Inr buf \<Rightarrow>
          (case scan_first_line buf of
             Inl err \<Rightarrow> Return (0, Wrap (Some err) ''unable to extract PostgreSQL's version string'')
           | Inr versionStringRaw \<Rightarrow> versionFromLine versionStringRaw))"

text \<open>
  The number a string of decimal digits denotes, read from the left with accumulator
  \<open>n\<close>; it states what \<open>ParseUint\<close> returns on such a string.
\<close>

fun dec_val :: "nat \<Rightarrow> string \<Rightarrow> nat" where
  "dec_val n [] = n"
| "dec_val n (c # cs) = dec_val (n * 10 + digit_val c) cs"

text \<open>
  The formula of the specification for the normalised version, as it is written there:
  \<open>first < 10 ? (first*10)*100 + second*100 : first*10000\<close>. It is defined from the
  specification's words to be compared with \<open>getPostgresVersion\<close>.
\<close>

definition spec_normalise :: "nat \<Rightarrow> nat \<Rightarrow> nat" where
  "spec_normalise first second =
     (if first < 10 then (first * 10) * 100 + second * 100 else first * 10000)"


section \<open>The agent's view of PostgreSQL\<close>

text \<open>
  Types of the \<open>pg\<close> package: a timeline id is a 32-bit and an LSN a 64-bit unsigned
  integer, a WAL filename is a string. \<open>units.Base2Bytes\<close> is an \<open>int64\<close>: a 64-bit
  word read as two's complement by \<open>sint\<close>.
\<close>

type_synonym TimelineID = "32 word"
type_synonym LSN = "64 word"
type_synonym WALFilename = string
type_synonym Base2Bytes = "64 word"

text \<open>
  The functions of the \<open>pg\<close> package that the agent calls are not among the sources
  (only the package's test of its constants is); they are parameters of the model.
  \<open>ParseWalfile\<close> returns the timeline id and the LSN of a filename or an error,
  \<open>Readahead lsn timelineID maxBytes\<close> the predicted filenames,
  \<open>WALFilename lsn timelineID\<close> the name of the segment holding \<open>lsn\<close>.
\<close>

record pg_ops =
  ParseWalfile :: "WALFilename \<Rightarrow> go_error + (TimelineID \<times> LSN)"
  Readahead :: "LSN \<Rightarrow> TimelineID \<Rightarrow> Base2Bytes \<Rightarrow> WALFilename list"
  WALFilename :: "LSN \<Rightarrow> TimelineID \<Rightarrow> WALFilename"

text \<open>
  \<open>float64\<close> is the type parameter \<open>'f\<close>: the model needs only the value
  \<open>math.NaN()\<close> and the conversion \<open>units.Base2Bytes(x)\<close> of a \<open>float64\<close> to
  \<open>int64\<close>, whatever they are.
\<close>

record 'f float64_ops =
  NaN :: 'f
  toBase2Bytes :: "'f \<Rightarrow> Base2Bytes"

text \<open>One row of the lag query, as \<open>rows.Scan\<close> stores it on success.\<close>

record 'f lag_row =
  senderState :: string
  syncState :: string
  durabilityLagBytes :: 'f
  flushLagBytes :: 'f
  visibilityLagBytes :: 'f
  visibilityLagMs :: 'f

text \<open>
  What a \<open>*pgx.Rows\<close> yields: \<open>rows.Next()\<close> is true once per element of
  \<open>scans\<close>, the element being what \<open>rows.Scan\<close> does with that row (an error, or
  the row's values); after the last one \<open>rows.Err()\<close> is \<open>rowsErr\<close>.
\<close>

record 'f pgx_rows =
  scans :: "(go_error + 'f lag_row) list"
  rowsErr :: "go_error option"

text \<open>
  The database during one call of \<open>predictDBWALFilenames\<close>: the outcome of scanning
  \<open>SELECT pg_is_in_recovery()\<close>, and of \<open>pool.QueryEx\<close> for a given SQL text.
\<close>

record 'f db =
  inRecovery :: "go_error + bool"
  QueryEx :: "string \<Rightarrow> go_error + 'f pgx_rows"

text \<open>
  The configuration the functions read: \<open>viper.GetString(config.KeyPGMode)\<close>, the two
  lag queries of \<open>walTranslations.Queries\<close>, and \<open>walCache.ReadaheadBytes()\<close>.
\<close>

record agent_cfg =
  pgMode :: string
  LagPrimary :: string
  LagFollower :: string
  ReadaheadBytes :: Base2Bytes

text \<open>
  What a function does besides returning is recorded as a list of events, in the order
  of the calls.
\<close>

datatype log_level = LevelDebug | LevelInfo | LevelWarn | LevelError

datatype event =
    EvQueryRowEx string
  | EvQueryEx string
  | EvParseWalfile WALFilename
  | EvReadahead LSN TimelineID Base2Bytes
  | EvNewConnPool
  | EvQueryOldestLSNs
  | EvWALCachePurge
  | EvLog log_level string

subsection \<open>dbState\<close>

datatype DBState = DBStateUnknown | DBStatePrimary | DBStateFollower

definition dbState :: "agent_cfg \<Rightarrow> 'f db \<Rightarrow> (DBState \<times> go_error option) go_ret \<times> event list" where
  "dbState cfg d =
     (let mode = pgMode cfg in
      if mode = ''primary'' then (Return (DBStatePrimary, None), [])
      else if mode = ''follower'' then (Return (DBStateFollower, None), [])
      else if mode = ''auto'' then
        (case inRecovery d of
           Inl err \<Rightarrow>
             (Return (DBStateUnknown, Wrap (Some err) ''unable to execute primary check''),
              [EvQueryRowEx ''SELECT pg_is_in_recovery()''])
         | Inr inRec \<Rightarrow>
             (Return (if inRec then DBStateFollower else DBStatePrimary, None),
              [EvQueryRowEx ''SELECT pg_is_in_recovery()'']))
      else (Panic (PanicMsg (''invalid mode: '' @ [CHR 0x22] @ mode @ [CHR 0x22])), []))"

subsection \<open>queryLag\<close>

datatype QueryLag = QueryLagUnknown | QueryLagPrimary | QueryLagFollower

definition unknownLag :: Base2Bytes where
  "unknownLag = 0x7FFFFFFFFFFFFFFF"

text \<open>
  The loop \<open>for rows.Next()\<close> of \<open>queryLag\<close> (source lines 306 to 313). The loop
  variables are \<open>err\<close>, \<open>visibilityLagBytes\<close> and \<open>numRows\<close> (the other five
  scanned variables are never read). \<open>Inl e\<close> is the return from inside the loop with
  the scan error \<open>e\<close>; \<open>Inr\<close> holds the variables when \<open>rows.Next()\<close> is false.
\<close>

fun scan_lag_rows ::
  "(go_error + 'f lag_row) list \<Rightarrow> go_error option \<Rightarrow> 'f \<Rightarrow> nat
     \<Rightarrow> go_error + (go_error option \<times> 'f \<times> nat)" where
  "scan_lag_rows [] err vis numRows = Inr (err, vis, numRows)"
| "scan_lag_rows (Inl e # rs) err vis numRows = Inl e"
| "scan_lag_rows (Inr row # rs) err vis numRows =
     scan_lag_rows rs None (visibilityLagBytes row) (numRows + 1)"

text \<open>
  The \<open>switch\<close> of \<open>queryLag\<close> that selects the SQL text, for the two supported
  queries.
\<close>

definition lagSQL :: "agent_cfg \<Rightarrow> QueryLag \<Rightarrow> string" where
  "lagSQL cfg lagQuery = (if lagQuery = QueryLagPrimary then LagPrimary cfg else LagFollower cfg)"

text \<open>
  \<open>queryLag\<close>. After a successful \<open>QueryEx\<close> the variable \<open>err\<close> is \<open>nil\<close>, and
  it is that variable, not \<open>rows.Err()\<close>, that line 316 wraps.
\<close>

definition queryLag ::
  "'f float64_ops \<Rightarrow> agent_cfg \<Rightarrow> 'f db \<Rightarrow> QueryLag
     \<Rightarrow> (Base2Bytes \<times> go_error option) go_ret \<times> event list" where
  "queryLag fl cfg d lagQuery =
     (case lagQuery of
        QueryLagUnknown \<Rightarrow> (Panic (PanicMsg ''unsupported query: 0''), [])
      | _ \<Rightarrow>
        (let sql = lagSQL cfg lagQuery in
         case QueryEx d sql of
           Inl err \<Rightarrow>
             (Return (unknownLag,
                Wrap (Some err)
                  (if lagQuery = QueryLagPrimary then ''unable to query lag: 1''
                   else ''unable to query lag: 2'')),
              [EvQueryEx sql])
         | Inr rows \<Rightarrow>
             (case scan_lag_rows (scans rows) None (NaN fl) 0 of
                Inl err \<Rightarrow>
                  (Return (unknownLag, Wrap (Some err) ''unable to scan lag response''),
                   [EvQueryEx sql])
              | Inr (err, visLagBytes, numRows) \<Rightarrow>
                  if rowsErr rows \<noteq> None
                  then (Return (unknownLag, Wrap err ''unable to process lag''), [EvQueryEx sql])
                  else (Return (toBase2Bytes fl visLagBytes, None), [EvQueryEx sql]))))"

subsection \<open>predictDBWALFilenames\<close>

text \<open>
  The result is the pair of the slice and the error; a \<open>nil\<close> slice is \<open>None\<close>, the
  empty slice \<open>[]pg.WALFilename{}\<close> is \<open>Some []\<close>. The comparison of the two
  \<open>Base2Bytes\<close> is the signed one of \<open>int64\<close>.
\<close>

definition predictDBWALFilenames ::
  "pg_ops \<Rightarrow> 'f float64_ops \<Rightarrow> agent_cfg \<Rightarrow> 'f db \<Rightarrow> WALFilename
     \<Rightarrow> (WALFilename list option \<times> go_error option) go_ret \<times> event list" where
  "predictDBWALFilenames pg fl cfg d walFile =
     (case dbState cfg d of
        (Panic p, ev) \<Rightarrow> (Panic p, ev)
      | (Return (state, err), ev) \<Rightarrow>
          if err \<noteq> None
          then (Return (Some [walFile], err),
                ev @ [EvLog LevelError
                        ''unable to determine if database is primary or not, retrying''])
          else
            (case state of
               DBStatePrimary \<Rightarrow> (Return (Some [], None), ev)
             | DBStateUnknown \<Rightarrow> (Panic (PanicMsg ''unknown state: unknown''), ev)
             | DBStateFollower \<Rightarrow>
                 (case queryLag fl cfg d QueryLagFollower of
                    (Panic p, ev2) \<Rightarrow> (Panic p, ev @ ev2)
                  | (Return (visLagBytes, err2), ev2) \<Rightarrow>
                      if err2 \<noteq> None
                      then (Return (None, Wrap err2 ''unable to query follower lag''), ev @ ev2)
                      else
                        (case ParseWalfile pg walFile of
                           Inl err3 \<Rightarrow>
                             (Return (None,
                                Wrap (Some err3)
                                  ''unable to parse WAL file while predicting names from the DB''),
                              ev @ ev2 @ [EvParseWalfile walFile])
                         | Inr (timelineID, lsn) \<Rightarrow>
                             (let maxBytes0 = ReadaheadBytes cfg;
                                  maxBytes = (if sint maxBytes0 > sint visLagBytes
                                              then visLagBytes else maxBytes0)
                              in (Return (Some (Readahead pg lsn timelineID maxBytes), None),
                                  ev @ ev2 @
                                  [EvParseWalfile walFile,
                                   EvReadahead lsn timelineID maxBytes]))))))"

section \<open>The I/O cache (agent/iocache/cache.go)\<close>

text \<open>
  \<open>structs.IOCacheKey\<close> is not among the sources; the worker logs its fields
  \<open>Database\<close>, \<open>Relation\<close> and \<open>Block\<close>, 32-bit object ids and a block number.
\<close>

record IOCacheKey =
  Database :: "32 word"
  Relation :: "32 word"
  Block :: "32 word"

datatype fork = ForkMain | ForkFsm | ForkVm | ForkInit

text \<open>
  Modelled from the spec: the file-handle cache (package agent/fhcache, not among the
  sources). A file-handle entry is "(db, rel, fork) -> open_fd", and \<open>purge()\<close>
  "closes and removes all entries".
\<close>

type_synonym FileHandleCache = "(32 word \<times> 32 word \<times> fork) \<rightharpoonup> nat"

definition fhCache_Purge :: "FileHandleCache \<Rightarrow> FileHandleCache" where
  "fhCache_Purge fhc = Map.empty"

text \<open>
  The state of an \<open>IOCache\<close>: \<open>ioc_c\<close> is the set of keys that hold a marker in the
  gcache \<open>ioc.c\<close> (the stored value is the empty struct; expiry by time and eviction by
  size are not modelled), \<open>ioc_fhCache\<close> the file-handle cache, \<open>ioWorkQueue\<close> the keys
  sent on the work channel and not yet received by a worker.
\<close>

record IOCache =
  ioc_c :: "IOCacheKey set"
  ioc_fhCache :: FileHandleCache
  ioWorkQueue :: "IOCacheKey list"







text \<open>
  \<open>Purge\<close> (lines 113 to 119): the gcache is emptied, then the file-handle cache is
  purged.
\<close>

definition IOCache_Purge :: "IOCache \<Rightarrow> IOCache" where
  "IOCache_Purge ioc = ioc\<lparr>ioc_c := {}, ioc_fhCache := fhCache_Purge (ioc_fhCache ioc)\<rparr>"

section \<open>getWALFilesDB\<close>

text \<open>
  Modelled from the spec: the WAL cache \<open>a.walCache\<close> (package agent/walcache, not among
  the sources). Of its state the model keeps the I/O cache it owns. Its \<open>Purge\<close> is the
  purge the specification describes for a timeline change: "purge I/O + file-handle
  caches", that is \<open>IOCache.Purge\<close>.
\<close>

record WALCache =
  wc_ioCache :: IOCache

definition WALCache_Purge :: "WALCache \<Rightarrow> WALCache" where
  "WALCache_Purge wc = wc\<lparr>wc_ioCache := IOCache_Purge (wc_ioCache wc)\<rparr>"

text \<open>
  The fields of \<open>Agent\<close> that \<open>getWALFilesDB\<close> reads and writes; \<open>a_pool\<close> tells
  whether \<open>a.pool\<close> is set.
\<close>

record agent =
  a_pool :: bool
  lastTimelineID :: TimelineID
  lastWALLog :: WALFilename
  walCache :: WALCache

text \<open>
  \<open>ensureDBPool\<close>; \<open>newPool\<close> is the error \<open>pgx.NewConnPool\<close> returns if it is
  called.
\<close>

definition ensureDBPool :: "go_error option \<Rightarrow> agent \<Rightarrow> go_error option \<times> agent \<times> event list" where
  "ensureDBPool newPool a =
     (if a_pool a then (None, a, [])
      else (case newPool of
              Some err \<Rightarrow>
                (Wrap (Some err) ''unable to create a new DB connection pool'', a, [EvNewConnPool])
            | None \<Rightarrow> (None, a\<lparr>a_pool := True\<rparr>, [EvNewConnPool])))"

text \<open>The closure of lines 208 to 219: the timeline check.\<close>

definition timelineCheck :: "TimelineID \<Rightarrow> agent \<Rightarrow> agent \<times> event list" where
  "timelineCheck timelineID a =
     (if lastTimelineID a \<noteq> timelineID then
        (if lastTimelineID a \<noteq> 0
         then (a\<lparr>walCache := WALCache_Purge (walCache a), lastTimelineID := timelineID\<rparr>,
               [EvWALCachePurge])
         else (a\<lparr>lastTimelineID := timelineID\<rparr>, []))
      else (a, []))"

text \<open>
  The loop over \<open>oldLSNs\<close> (lines 222 to 246). \<open>dbs i\<close> is the database as the
  \<open>i\<close>-th iteration finds it; \<open>numWALFiles\<close> is the local counter and \<open>walFiles\<close>
  the slice built so far. A failed prediction is logged at debug level and skipped.
\<close>

fun getWALFilesDB_loop ::
  "pg_ops \<Rightarrow> 'f float64_ops \<Rightarrow> agent_cfg \<Rightarrow> (nat \<Rightarrow> 'f db) \<Rightarrow> TimelineID \<Rightarrow> nat
     \<Rightarrow> LSN list \<Rightarrow> agent \<Rightarrow> 64 word \<Rightarrow> WALFilename list
     \<Rightarrow> WALFilename list go_ret \<times> agent \<times> event list" where
  "getWALFilesDB_loop pg fl cfg dbs timelineID i [] a numWALFiles walFiles =
     (Return walFiles, a, [])"
| "getWALFilesDB_loop pg fl cfg dbs timelineID i (oldLSN # rest) a numWALFiles walFiles =
     (let walFile = WALFilename pg oldLSN timelineID;
          numWALFiles1 = (if lastWALLog a \<noteq> walFile \<and> lastWALLog a \<noteq> []
                          then numWALFiles + 1 else numWALFiles);
          a1 = (if lastWALLog a \<noteq> walFile then a\<lparr>lastWALLog := walFile\<rparr> else a)
      in case predictDBWALFilenames pg fl cfg (dbs i) walFile of
           (Panic p, ev) \<Rightarrow> (Panic p, a1, ev)
         | (Return (predictedWALFiles, err), ev) \<Rightarrow>
             if err \<noteq> None then
               (case getWALFilesDB_loop pg fl cfg dbs timelineID (i + 1) rest a1 numWALFiles1
                       walFiles of
                  (r, a2, ev2) \<Rightarrow>
                    (r, a2, ev @ [EvLog LevelDebug ''unable to predict DB WAL filenames''] @ ev2))
             else
               (case getWALFilesDB_loop pg fl cfg dbs timelineID (i + 1) rest a1 numWALFiles1
                       (walFiles @ (case predictedWALFiles of None \<Rightarrow> [] | Some ps \<Rightarrow> ps)) of
                  (r, a2, ev2) \<Rightarrow> (r, a2, ev @ ev2)))"

text \<open>
  \<open>getWALFilesDB\<close>. \<open>oldest\<close> is what \<open>pg.QueryOldestLSNs\<close> returns: an error, or
  the timeline id and the LSNs. The result is the returned pair (or the panic), the agent
  afterwards, and the events.
\<close>

definition getWALFilesDB ::
  "pg_ops \<Rightarrow> 'f float64_ops \<Rightarrow> agent_cfg \<Rightarrow> go_error option
     \<Rightarrow> go_error + (TimelineID \<times> LSN list) \<Rightarrow> (nat \<Rightarrow> 'f db) \<Rightarrow> agent
     \<Rightarrow> (WALFilename list option \<times> go_error option) go_ret \<times> agent \<times> event list" where
  "getWALFilesDB pg fl cfg newPool oldest dbs a =
     (case ensureDBPool newPool a of
        (Some err, a1, ev1) \<Rightarrow>
          (Return (None, Wrap (Some err) ''unable to get WAL db files''), a1, ev1)
      | (None, a1, ev1) \<Rightarrow>
          (case oldest of
             Inl err \<Rightarrow>
               (Return (None,
                  Wrap (Some err) ''unable to query PostgreSQL checkpoint information''),
                a1, ev1 @ [EvQueryOldestLSNs])
           | Inr (timelineID, oldLSNs) \<Rightarrow>
               (case timelineCheck timelineID a1 of
                  (a2, ev2) \<Rightarrow>
                    (case getWALFilesDB_loop pg fl cfg dbs timelineID 0 oldLSNs a2 0 [] of
                       (Panic p, a3, ev3) \<Rightarrow> (Panic p, a3, ev1 @ [EvQueryOldestLSNs] @ ev2 @ ev3)
                     | (Return walFiles, a3, ev3) \<Rightarrow>
                         (Return (Some walFiles, None), a3,
                          ev1 @ [EvQueryOldestLSNs] @ ev2 @ ev3)))))"

section \<open>Concrete values for running the model\<close>

text \<open>
  An instance of the parameters, used to run the functions on concrete inputs: floats
  are stood in for by integers (\<open>NaN\<close> by \<open>-1\<close>), the conversion is the one of
  integers to 64-bit words; every WAL filename parses to timeline 1 and LSN 0, and
  \<open>Readahead\<close> returns one made-up name.
\<close>

definition ex_fl :: "int float64_ops" where
  "ex_fl = \<lparr>NaN = - 1, toBase2Bytes = word_of_int\<rparr>"

definition ex_cfg :: agent_cfg where
  "ex_cfg = \<lparr>pgMode = ''auto'', LagPrimary = ''SELECT lag_primary'',
             LagFollower = ''SELECT lag_follower'', ReadaheadBytes = 1024\<rparr>"

definition ex_pg :: pg_ops where
  "ex_pg = \<lparr>ParseWalfile = (\<lambda>w. Inr (1, 0)),
            Readahead = (\<lambda>lsn tl maxBytes. [''000000010000000000000001'']),
            WALFilename = (\<lambda>lsn tl. ''000000010000000000000000'')\<rparr>"

definition ex_row :: "int \<Rightarrow> int lag_row" where
  "ex_row v = \<lparr>senderState = ''streaming'', syncState = ''async'', durabilityLagBytes = 0,
               flushLagBytes = 0, visibilityLagBytes = v, visibilityLagMs = 0\<rparr>"

text \<open>
  A database whose recovery check answers \<open>rec\<close> and whose every query answers \<open>q\<close>.
\<close>

definition ex_db :: "go_error + bool \<Rightarrow> go_error + int pgx_rows \<Rightarrow> int db" where
  "ex_db rec q = \<lparr>inRecovery = rec, QueryEx = (\<lambda>sql. q)\<rparr>"

text \<open>
  An agent without a connection pool that last saw timeline \<open>t\<close> and whose I/O cache
  holds one key and one open file.
\<close>

definition ex_key :: IOCacheKey where
  "ex_key = \<lparr>Database = 1, Relation = 16384, Block = 42\<rparr>"

definition ex_ioc :: IOCache where
  "ex_ioc = \<lparr>ioc_c = {ex_key}, ioc_fhCache = [(1, 16384, ForkMain) \<mapsto> 3], ioWorkQueue = []\<rparr>"

definition ex_agent :: "TimelineID \<Rightarrow> agent" where
  "ex_agent t = \<lparr>a_pool = False, lastTimelineID = t, lastWALLog = [],
                  walCache = \<lparr>wc_ioCache = ex_ioc\<rparr>\<rparr>"

section \<open>Properties of getPostgresVersion\<close>

subsection \<open>Parsing and printing decimal numbers\<close>
lemma dec_val_append: "dec_val n (xs @ ys) = dec_val (dec_val n xs) ys"
  by (induction xs arbitrary: n) simp_all

lemma dec_val_ge: "n \<le> dec_val n cs"
proof (induction cs arbitrary: n)
  case Nil
  show ?case by simp
next
  case (Cons c cs)
  have "n \<le> n * 10 + digit_val c" by simp
  also have "\<dots> \<le> dec_val (n * 10 + digit_val c) cs" by (rule Cons.IH)
  finally show ?case by simp
qed

lemma ParseUint_loop_digits:
  "list_all is_digit cs \<Longrightarrow> dec_val n cs \<le> maxVal \<Longrightarrow> maxVal \<le> maxUint64 \<Longrightarrow>
   ParseUint_loop maxVal s0 n cs = (dec_val n cs, None)"
proof (induction cs arbitrary: n)
  case Nil
  show ?case by simp
next
  case (Cons c cs)
  let ?n1 = "n * 10 + digit_val c"
  have b: "?n1 \<le> maxVal" using dec_val_ge [of ?n1 cs] Cons.prems(2) by simp
  have c: "n < maxUint64 div 10 + 1" using b Cons.prems(3) by linarith
  have d: "is_digit c" "list_all is_digit cs" using Cons.prems(1) by simp_all
  have "ParseUint_loop maxVal s0 ?n1 cs = (dec_val ?n1 cs, None)"
    using Cons.IH [of ?n1] d Cons.prems by simp
  then show ?case using b c d Cons.prems(3) by (simp add: Let_def)
qed

lemma digit_val_digit_char: "d < 10 \<Longrightarrow> digit_val (digit_char d) = d"
  by (simp add: digit_val_def digit_char_def)

lemma digit_val_zero: "digit_val CHR ''0'' = 0"
  by (simp add: digit_val_def)

lemma is_digit_digit_char: "d < 10 \<Longrightarrow> is_digit (digit_char d)"
  by (simp add: is_digit_def digit_char_def)

lemma digit_char_not_dot: "d < 10 \<Longrightarrow> digit_char d \<noteq> CHR ''.''"
  using is_digit_digit_char [of d] by (auto simp: is_digit_def)

lemma FormatUint_digits: "list_all is_digit (FormatUint n)"
proof (induction n rule: FormatUint.induct)
  case (1 n)
  show ?case
  proof (cases "n < 10")
    case True
    then show ?thesis by (simp add: FormatUint.simps [of n] is_digit_digit_char)
  next
    case False
    then show ?thesis using 1 by (simp add: FormatUint.simps [of n] is_digit_digit_char)
  qed
qed

lemma dec_val_FormatUint: "dec_val 0 (FormatUint n) = n"
proof (induction n rule: FormatUint.induct)
  case (1 n)
  show ?case
  proof (cases "n < 10")
    case True
    then show ?thesis by (simp add: FormatUint.simps [of n] digit_val_digit_char)
  next
    case False
    then show ?thesis using 1
      by (simp add: FormatUint.simps [of n] dec_val_append digit_val_digit_char)
  qed
qed

lemma FormatUint_nonempty: "FormatUint n \<noteq> []"
  by (cases "n < 10") (simp_all add: FormatUint.simps [of n])

lemma Split_acc_no_sep:
  "sep \<notin> set ds \<Longrightarrow> Split_acc sep cur (ds @ sep # rest) = (cur @ ds) # Split_acc sep [] rest"
  by (induction ds arbitrary: cur) auto

lemma Split_acc_no_sep_end: "sep \<notin> set ds \<Longrightarrow> Split_acc sep cur ds = [cur @ ds]"
  by (induction ds arbitrary: cur) auto

lemma Split_acc_nonempty: "Split_acc sep cur s \<noteq> []"
  by (induction s arbitrary: cur) auto

lemma digits_no_dot: "list_all is_digit ds \<Longrightarrow> CHR ''.'' \<notin> set ds"
  by (auto simp: list_all_iff is_digit_def)

lemma ParseUint_digits:
  "ds \<noteq> [] \<Longrightarrow> list_all is_digit ds \<Longrightarrow> dec_val 0 ds < 2 ^ 32 \<Longrightarrow>
   ParseUint ds 32 = (dec_val 0 ds, None)"
  using ParseUint_loop_digits [of ds 0 "2 ^ 32 - 1" ds]
  by (simp add: ParseUint_def maxUint64_def)



lemma getPostgresVersion_first_line:
  assumes "CHR 0x0A \<notin> set l" and "length l < 65536" and "l = [] \<or> last l \<noteq> CHR 0x0D"
  shows "getPostgresVersion (Inr (l @ CHR 0x0A # rest)) = versionFromLine l"
proof -
  have "takeWhile (\<lambda>c. c \<noteq> CHR 0x0A) (l @ CHR 0x0A # rest) = l"
    using assms(1) by (induction l) auto
  then show ?thesis
    using assms(2,3)
    by (auto simp: getPostgresVersion_def scan_first_line_def MaxScanTokenSize_def dropCR_def)
qed

lemma versionFromLine_minor:
  assumes a: "a < 10" and ds: "list_all is_digit second"
    and fit: "dec_val (a * 10) (second @ ''00'') < 2 ^ 32"
  shows "versionFromLine (digit_char a # CHR ''.'' # second) =
           Return (dec_val (a * 10) (second @ ''00''), None)"
proof -
  have sp: "Split (digit_char a # CHR ''.'' # second) CHR ''.'' = [[digit_char a], second]"
    using Split_acc_no_sep [of "CHR ''.''" "[digit_char a]" "[]" second]
      Split_acc_no_sep_end [of "CHR ''.''" second "[]"] digits_no_dot [OF ds]
      digit_char_not_dot [OF a]
    by (simp add: Split_def)
  have p1: "ParseUint [digit_char a] 32 = (a, None)"
    using ParseUint_digits [of "[digit_char a]"] a
    by (simp add: is_digit_digit_char digit_val_digit_char)
  let ?s = "FormatUint (a * 10) @ second @ ''00''"
  have dig: "list_all is_digit ?s"
    using ds FormatUint_digits [of "a * 10"] by (simp add: is_digit_def)
  have val: "dec_val 0 ?s = dec_val (a * 10) (second @ ''00'')"
    by (simp only: dec_val_append dec_val_FormatUint)
  have p2: "ParseUint ?s 32 = (dec_val (a * 10) (second @ ''00''), None)"
    using ParseUint_digits [of ?s] dig val fit FormatUint_nonempty [of "a * 10"] by simp
  show ?thesis
    using a p1 p2 by (simp add: versionFromLine_def sp)
qed

lemma versionFromLine_major:
  assumes n: "10 \<le> n" and fit: "n * 10000 < 2 ^ 32" and r: "rest = [] \<or> hd rest = CHR ''.''"
  shows "versionFromLine (FormatUint n @ rest) = Return (n * 10000, None)"
proof -
  have nd: "CHR ''.'' \<notin> set (FormatUint n)"
    by (rule digits_no_dot [OF FormatUint_digits])
  have "\<exists>ps. Split (FormatUint n @ rest) CHR ''.'' = FormatUint n # ps"
  proof (cases rest)
    case Nil
    then show ?thesis using Split_acc_no_sep_end [OF nd, of "[]"] by (simp add: Split_def)
  next
    case (Cons c cs)
    then have "c = CHR ''.''" using r by simp
    then show ?thesis using Cons Split_acc_no_sep [OF nd, of "[]" cs] by (simp add: Split_def)
  qed
  then obtain ps where sp: "Split (FormatUint n @ rest) CHR ''.'' = FormatUint n # ps" ..
  have lt: "n < 2 ^ 32" using fit by simp
  have p1: "ParseUint (FormatUint n) 32 = (n, None)"
    using ParseUint_digits [of "FormatUint n"] FormatUint_digits [of n] FormatUint_nonempty [of n] lt
    by (simp add: dec_val_FormatUint)
  let ?s = "FormatUint n @ ''0000''"
  have dig: "list_all is_digit ?s"
    using FormatUint_digits [of n] by (simp add: is_digit_def)
  have val: "dec_val 0 ?s = n * 10000"
    by (simp add: dec_val_append dec_val_FormatUint digit_val_zero)
  have p2: "ParseUint ?s 32 = (n * 10000, None)"
    using ParseUint_digits [of ?s] dig val fit by simp
  show ?thesis
    using n p1 p2 by (simp add: versionFromLine_def sp)
qed

lemma length_FormatUint: "n < 10 ^ Suc k \<Longrightarrow> length (FormatUint n) \<le> Suc k"
proof (induction k arbitrary: n)
  case 0
  then show ?case by (simp add: FormatUint.simps [of n])
next
  case (Suc k)
  show ?case
  proof (cases "n < 10")
    case True
    then show ?thesis by (simp add: FormatUint.simps [of n])
  next
    case False
    have "n div 10 < 10 ^ Suc k" using Suc.prems by (simp add: less_mult_imp_div_less)
    then have "length (FormatUint (n div 10)) \<le> Suc k" by (rule Suc.IH)
    then show ?thesis using False by (simp add: FormatUint.simps [of n])
  qed
qed

lemma digits_first_line:
  assumes "list_all is_digit ds" and "ds \<noteq> []"
  shows "CHR 0x0A \<notin> set ds" and "last ds \<noteq> CHR 0x0D"
proof -
  show "CHR 0x0A \<notin> set ds" using assms(1) by (auto simp: list_all_iff is_digit_def)
  have "is_digit (last ds)" using assms by (simp add: list_all_iff)
  then show "last ds \<noteq> CHR 0x0D" by (auto simp: is_digit_def)
qed

lemma is_digit_plain:
  "is_digit c \<Longrightarrow> c \<noteq> CHR 0x0A \<and> c \<noteq> CHR 0x0D \<and> c \<noteq> CHR ''.''"
  by (auto simp: is_digit_def)

lemmas version_eval =
  getPostgresVersion_def scan_first_line_def MaxScanTokenSize_def dropCR_def
  versionFromLine_def Split_def ParseUint_def is_digit_def digit_val_def digit_char_def
  maxUint64_def FormatUint.simps

subsection \<open>Version normalisation\<close>

lemma getPostgresVersion_minor:
  assumes "a < 10" and "b < 10"
  shows "getPostgresVersion (Inr (digit_char a # CHR ''.'' # digit_char b # [CHR 0x0A])) =
           Return (a * 10000 + b * 100, None)"
proof -
  let ?l = "digit_char a # CHR ''.'' # [digit_char b]"
  have da: "is_digit (digit_char a)" and db: "is_digit (digit_char b)"
    using assms by (simp_all add: is_digit_digit_char)
  have nl: "CHR 0x0A \<notin> set ?l" and cr: "last ?l \<noteq> CHR 0x0D"
    using is_digit_plain [OF da] is_digit_plain [OF db] by auto
  have "getPostgresVersion (Inr (?l @ CHR 0x0A # [])) = versionFromLine ?l"
    using nl cr by (intro getPostgresVersion_first_line) simp_all
  moreover have v: "dec_val (a * 10) ([digit_char b] @ ''00'') = a * 10000 + b * 100"
    using assms by (simp add: digit_val_digit_char digit_val_zero)
  moreover have dsb: "list_all is_digit [digit_char b]"
    using db by simp
  moreover have fit: "dec_val (a * 10) ([digit_char b] @ ''00'') < 2 ^ 32"
    unfolding v using assms by simp
  moreover have "versionFromLine ?l = Return (dec_val (a * 10) ([digit_char b] @ ''00''), None)"
    by (rule versionFromLine_minor [OF assms(1) dsb fit])
  ultimately show ?thesis by simp
qed

lemma getPostgresVersion_major:
  assumes "10 \<le> n" and "n * 10000 < 2 ^ 32"
  shows "getPostgresVersion (Inr (FormatUint n @ [CHR 0x0A])) = Return (n * 10000, None)"
proof -
  have "n < 10 ^ Suc 9" using assms(2) by simp
  then have len: "length (FormatUint n) \<le> Suc 9" by (rule length_FormatUint)
  have "getPostgresVersion (Inr (FormatUint n @ CHR 0x0A # [])) = versionFromLine (FormatUint n)"
    using len digits_first_line [OF FormatUint_digits FormatUint_nonempty, of n]
    by (intro getPostgresVersion_first_line) simp_all
  moreover have "versionFromLine (FormatUint n @ []) = Return (n * 10000, None)"
    using assms by (intro versionFromLine_major) simp_all
  ultimately show ?thesis by simp
qed

text \<open>
  C7, as amended. \<open>getPostgresVersion\<close> maps a PG_VERSION whose first line is
  "9.6", "9.4", "10" or "11" to 90600, 90400, 100000 and 110000. In general a first line
  \<open>a.b\<close> with one-digit \<open>a\<close> and \<open>b\<close> gives \<open>a * 10000 + b * 100\<close>, and a first
  line that is the decimal numeral of \<open>n \<ge> 10\<close> gives \<open>n * 10000\<close> (as long as that
  fits in 32 bits). The first branch is not the specification's
  \<open>(first*10)*100 + second*100\<close>: the code concatenates the digits of \<open>first*10\<close>,
  the minor and "00".
\<close>

theorem getPostgresVersion_normalises:
  "getPostgresVersion (Inr (''9.6'' @ [CHR 0x0A])) = Return (90600, None)
   \<and> getPostgresVersion (Inr (''9.4'' @ [CHR 0x0A])) = Return (90400, None)
   \<and> getPostgresVersion (Inr (''10'' @ [CHR 0x0A])) = Return (100000, None)
   \<and> getPostgresVersion (Inr (''11'' @ [CHR 0x0A])) = Return (110000, None)
   \<and> (\<forall>a b. a < 10 \<longrightarrow> b < 10 \<longrightarrow>
         getPostgresVersion (Inr (digit_char a # CHR ''.'' # digit_char b # [CHR 0x0A])) =
           Return (a * 10000 + b * 100, None))
   \<and> (\<forall>n. 10 \<le> n \<longrightarrow> n * 10000 < 2 ^ 32 \<longrightarrow>
         getPostgresVersion (Inr (FormatUint n @ [CHR 0x0A])) = Return (n * 10000, None))"
proof (intro conjI allI impI)
  show "getPostgresVersion (Inr (''9.6'' @ [CHR 0x0A])) = Return (90600, None)"
    by (simp add: version_eval)
  show "getPostgresVersion (Inr (''9.4'' @ [CHR 0x0A])) = Return (90400, None)"
    by (simp add: version_eval)
  show "getPostgresVersion (Inr (''10'' @ [CHR 0x0A])) = Return (100000, None)"
    by (simp add: version_eval)
  show "getPostgresVersion (Inr (''11'' @ [CHR 0x0A])) = Return (110000, None)"
    by (simp add: version_eval)
next
  fix a b :: nat
  assume "a < 10" and "b < 10"
  then show "getPostgresVersion (Inr (digit_char a # CHR ''.'' # digit_char b # [CHR 0x0A])) =
      Return (a * 10000 + b * 100, None)"
    by (rule getPostgresVersion_minor)
next
  fix n :: nat
  assume "10 \<le> n" and "n * 10000 < 2 ^ 32"
  then show "getPostgresVersion (Inr (FormatUint n @ [CHR 0x0A])) = Return (n * 10000, None)"
    by (rule getPostgresVersion_major)
qed

theorem getPostgresVersion_normalises_witness:
  "(9::nat) < 10 \<and> (4::nat) < 10
   \<and> getPostgresVersion (Inr (digit_char 9 # CHR ''.'' # digit_char 4 # [CHR 0x0A])) =
        Return (9 * 10000 + 4 * 100, None)
   \<and> (10::nat) \<le> 12 \<and> (12::nat) * 10000 < 2 ^ 32
   \<and> getPostgresVersion (Inr (FormatUint 12 @ [CHR 0x0A])) = Return (12 * 10000, None)"
proof -
  from getPostgresVersion_normalises
  have A: "\<forall>a b. a < 10 \<longrightarrow> b < 10 \<longrightarrow>
         getPostgresVersion (Inr (digit_char a # CHR ''.'' # digit_char b # [CHR 0x0A])) =
           Return (a * 10000 + b * 100, None)"
    and B: "\<forall>n. 10 \<le> n \<longrightarrow> n * 10000 < 2 ^ 32 \<longrightarrow>
         getPostgresVersion (Inr (FormatUint n @ [CHR 0x0A])) = Return (n * 10000, None)"
    by blast+
  have "getPostgresVersion (Inr (digit_char 9 # CHR ''.'' # digit_char 4 # [CHR 0x0A])) =
        Return (9 * 10000 + 4 * 100, None)"
    using A [rule_format, of 9 4] by simp
  moreover have "getPostgresVersion (Inr (FormatUint 12 @ [CHR 0x0A])) = Return (12 * 10000, None)"
    using B [rule_format, of 12] by simp
  ultimately show ?thesis by simp
qed

text \<open>
  C7, as stated: the specification's formula gives 9600 for "9.6", the code 90600.
\<close>

theorem spec_normalise_counterexample:
  "spec_normalise 9 6 = 9600
   \<and> getPostgresVersion (Inr (''9.6'' @ [CHR 0x0A])) \<noteq> Return (spec_normalise 9 6, None)"
  by (simp add: spec_normalise_def version_eval)

text \<open>
  C8: a first line that is a bare major version below 10 is not handled. For "9" the
  split has one part, the first number is below 10, and reading \<open>parts[1]\<close> panics with
  "index out of range [1] with length 1", with or without a final newline in the file. A
  bare major version from 10 on is handled.
\<close>

theorem getPostgresVersion_bare_major_panics:
  "getPostgresVersion (Inr (''9'' @ [CHR 0x0A])) = Panic (IndexOutOfRange 1 1)
   \<and> getPostgresVersion (Inr ''9'') = Panic (IndexOutOfRange 1 1)
   \<and> getPostgresVersion (Inr (''11'' @ [CHR 0x0A])) = Return (110000, None)"
  by (simp add: version_eval)

section \<open>Properties of queryLag\<close>

lemma scan_lag_rows_scan_error:
  "scan_lag_rows (map Inr pre @ Inl e # post) err vis numRows = Inl e"
  by (induction pre arbitrary: err vis numRows) simp_all

lemma scan_lag_rows_all_scanned:
  "scan_lag_rows (map Inr rs) err vis numRows =
     Inr (if rs = [] then err else None,
          if rs = [] then vis else visibilityLagBytes (last rs),
          numRows + length rs)"
  by (induction rs arbitrary: err vis numRows) simp_all

lemma sint_unknownLag: "sint unknownLag = 2 ^ 63 - 1"
  by (simp add: unknownLag_def)

lemma queryLag_query_error:
  assumes "lagQuery \<noteq> QueryLagUnknown" and "QueryEx d (lagSQL cfg lagQuery) = Inl e"
  shows "\<exists>msg. queryLag fl cfg d lagQuery =
           (Return (unknownLag, Some (Wrapped e msg)), [EvQueryEx (lagSQL cfg lagQuery)])"
  using assms by (cases lagQuery) (simp_all add: queryLag_def)

lemma queryLag_scan_error:
  assumes "lagQuery \<noteq> QueryLagUnknown" and "QueryEx d (lagSQL cfg lagQuery) = Inr rows"
    and "scans rows = map Inr pre @ Inl e # post"
  shows "queryLag fl cfg d lagQuery =
           (Return (unknownLag, Some (Wrapped e ''unable to scan lag response'')),
            [EvQueryEx (lagSQL cfg lagQuery)])"
  using assms by (cases lagQuery) (simp_all add: queryLag_def scan_lag_rows_scan_error)

lemma queryLag_success:
  assumes "lagQuery \<noteq> QueryLagUnknown" and "QueryEx d (lagSQL cfg lagQuery) = Inr rows"
    and "scans rows = map Inr rs" and "rowsErr rows = None"
  shows "queryLag fl cfg d lagQuery =
           (Return (toBase2Bytes fl (if rs = [] then NaN fl else visibilityLagBytes (last rs)), None),
            [EvQueryEx (lagSQL cfg lagQuery)])"
  using assms by (cases lagQuery) (simp_all add: queryLag_def scan_lag_rows_all_scanned)

lemma queryLag_rows_error:
  assumes "lagQuery \<noteq> QueryLagUnknown" and "QueryEx d (lagSQL cfg lagQuery) = Inr rows"
    and "scans rows = map Inr rs" and "rowsErr rows = Some e"
  shows "queryLag fl cfg d lagQuery =
           (Return (unknownLag, None), [EvQueryEx (lagSQL cfg lagQuery)])"
  using assms by (cases lagQuery) (simp_all add: queryLag_def scan_lag_rows_all_scanned)


text \<open>
  C6: for either supported query, when \<open>QueryEx\<close> fails, or the scan of some row fails
  (the rows before it having scanned), \<open>queryLag\<close> returns \<open>unknownLag\<close>, that is
  \<open>math.MaxInt64\<close>, with a non-nil error that wraps the failure; when all rows scan
  and the iteration ends without error, it returns the conversion of the
  \<open>visibilityLagBytes\<close> of the last row, and \<open>nil\<close>.
\<close>

theorem queryLag_sentinel_on_failure:
  assumes "lagQuery \<noteq> QueryLagUnknown"
  shows
   "(\<forall>e. QueryEx d (lagSQL cfg lagQuery) = Inl e \<longrightarrow>
        (\<exists>msg. fst (queryLag fl cfg d lagQuery) = Return (unknownLag, Some (Wrapped e msg))))
    \<and> (\<forall>rows pre e post.
          QueryEx d (lagSQL cfg lagQuery) = Inr rows \<longrightarrow>
          scans rows = map Inr pre @ Inl e # post \<longrightarrow>
          fst (queryLag fl cfg d lagQuery) =
            Return (unknownLag, Some (Wrapped e ''unable to scan lag response'')))
    \<and> (\<forall>rows rs.
          QueryEx d (lagSQL cfg lagQuery) = Inr rows \<longrightarrow>
          scans rows = map Inr rs \<longrightarrow> rs \<noteq> [] \<longrightarrow> rowsErr rows = None \<longrightarrow>
          fst (queryLag fl cfg d lagQuery) =
            Return (toBase2Bytes fl (visibilityLagBytes (last rs)), None))
    \<and> sint unknownLag = 2 ^ 63 - 1"
proof (intro conjI allI impI)
  fix e
  assume "QueryEx d (lagSQL cfg lagQuery) = Inl e"
  from queryLag_query_error [OF assms this, of fl]
  show "\<exists>msg. fst (queryLag fl cfg d lagQuery) = Return (unknownLag, Some (Wrapped e msg))"
    by auto
next
  fix rows pre e post
  assume "QueryEx d (lagSQL cfg lagQuery) = Inr rows"
    and "scans rows = map Inr pre @ Inl e # post"
  from queryLag_scan_error [OF assms this, of fl]
  show "fst (queryLag fl cfg d lagQuery) =
          Return (unknownLag, Some (Wrapped e ''unable to scan lag response''))"
    by simp
next
  fix rows rs
  assume "QueryEx d (lagSQL cfg lagQuery) = Inr rows" and "scans rows = map Inr rs"
    and ne: "rs \<noteq> []" and "rowsErr rows = None"
  from queryLag_success [OF assms this(1,2,4), of fl] ne
  show "fst (queryLag fl cfg d lagQuery) =
          Return (toBase2Bytes fl (visibilityLagBytes (last rs)), None)"
    by simp
next
  show "sint unknownLag = 2 ^ 63 - 1" by (rule sint_unknownLag)
qed

lemmas ex_defs = ex_fl_def ex_cfg_def ex_pg_def ex_row_def ex_db_def

theorem queryLag_sentinel_on_failure_witness:
  "QueryLagFollower \<noteq> QueryLagUnknown
   \<and> fst (queryLag ex_fl ex_cfg (ex_db (Inr True) (Inl (ErrExternal ''connection reset'')))
          QueryLagFollower) =
       Return (unknownLag, Some (Wrapped (ErrExternal ''connection reset'') ''unable to query lag: 2''))
   \<and> fst (queryLag ex_fl ex_cfg
          (ex_db (Inr True)
             (Inr \<lparr>scans = map Inr [ex_row 7] @ Inl (ErrExternal ''bad column'') # [],
                   rowsErr = None\<rparr>))
          QueryLagFollower) =
       Return (unknownLag, Some (Wrapped (ErrExternal ''bad column'') ''unable to scan lag response''))
   \<and> fst (queryLag ex_fl ex_cfg
          (ex_db (Inr True) (Inr \<lparr>scans = map Inr [ex_row 7, ex_row 4096], rowsErr = None\<rparr>))
          QueryLagFollower) =
       Return (4096, None)"
proof -
  let ?q1 = "Inl (ErrExternal ''connection reset'') :: go_error + int pgx_rows"
  let ?rows2 = "\<lparr>scans = map Inr [ex_row 7] @ Inl (ErrExternal ''bad column'') # [],
                   rowsErr = None\<rparr> :: int pgx_rows"
  let ?rows3 = "\<lparr>scans = map Inr [ex_row 7, ex_row 4096], rowsErr = None\<rparr> :: int pgx_rows"
  have u: "QueryLagFollower \<noteq> QueryLagUnknown" by simp
  note t1 = queryLag_sentinel_on_failure [OF u, of "ex_db (Inr True) ?q1" ex_cfg ex_fl]
  note t2 = queryLag_sentinel_on_failure [OF u, of "ex_db (Inr True) (Inr ?rows2)" ex_cfg ex_fl]
  note t3 = queryLag_sentinel_on_failure [OF u, of "ex_db (Inr True) (Inr ?rows3)" ex_cfg ex_fl]
  have a: "fst (queryLag ex_fl ex_cfg (ex_db (Inr True) ?q1) QueryLagFollower) =
       Return (unknownLag, Some (Wrapped (ErrExternal ''connection reset'') ''unable to query lag: 2''))"
    using t1 by (simp add: queryLag_def ex_defs lagSQL_def)
  have b: "fst (queryLag ex_fl ex_cfg (ex_db (Inr True) (Inr ?rows2)) QueryLagFollower) =
       Return (unknownLag, Some (Wrapped (ErrExternal ''bad column'') ''unable to scan lag response''))"
    using t2 [THEN conjunct2, THEN conjunct1, rule_format, of ?rows2 "[ex_row 7]" _ "[]"]
    by (simp add: ex_db_def)
  have c: "fst (queryLag ex_fl ex_cfg (ex_db (Inr True) (Inr ?rows3)) QueryLagFollower) =
       Return (4096, None)"
    using t3 [THEN conjunct2, THEN conjunct2, THEN conjunct1, rule_format,
        of ?rows3 "[ex_row 7, ex_row 4096]"]
    by (simp add: ex_db_def ex_fl_def ex_row_def)
  show ?thesis using u a b c by simp
qed

text \<open>
  C9: when the query and every scan succeed but the iteration ends with an error
  (\<open>rows.Err()\<close> is not \<open>nil\<close>), \<open>queryLag\<close> returns \<open>unknownLag\<close> with a
  \<open>nil\<close> error: line 316 wraps the variable \<open>err\<close>, which is \<open>nil\<close> there, and
  \<open>errors.Wrap(nil, _)\<close> is \<open>nil\<close>. A query without rows and without error returns
  the conversion of the \<open>NaN\<close> the variable was initialised with.
\<close>

theorem queryLag_iteration_error_dropped:
  "fst (queryLag ex_fl ex_cfg
          (ex_db (Inr True)
             (Inr \<lparr>scans = [Inr (ex_row 7)], rowsErr = Some (ErrExternal ''unexpected EOF'')\<rparr>))
          QueryLagFollower) =
     Return (unknownLag, None)
   \<and> fst (queryLag ex_fl ex_cfg
          (ex_db (Inr True) (Inr \<lparr>scans = [], rowsErr = None\<rparr>))
          QueryLagFollower) =
     Return (toBase2Bytes ex_fl (NaN ex_fl), None)"
  by (simp add: queryLag_def ex_db_def)

section \<open>Properties of predictDBWALFilenames\<close>

lemma dbState_events:
  "set (snd (dbState cfg d)) \<subseteq> {EvQueryRowEx ''SELECT pg_is_in_recovery()''}"
  by (auto simp: dbState_def Let_def split: sum.splits)

text \<open>
  C4: whenever \<open>dbState\<close> reports the primary (without error),
  \<open>predictDBWALFilenames\<close> returns the empty list and no error, and does nothing beyond
  what \<open>dbState\<close> did: its events are those of \<open>dbState\<close>, at most the recovery
  check, so no lag query, no parse of the WAL filename and no readahead.
\<close>

theorem predictDBWALFilenames_primary:
  assumes "fst (dbState cfg d) = Return (DBStatePrimary, None)"
  shows "fst (predictDBWALFilenames pg fl cfg d walFile) = Return (Some [], None)
         \<and> snd (predictDBWALFilenames pg fl cfg d walFile) = snd (dbState cfg d)
         \<and> set (snd (predictDBWALFilenames pg fl cfg d walFile))
             \<subseteq> {EvQueryRowEx ''SELECT pg_is_in_recovery()''}"
proof -
  obtain ev where "dbState cfg d = (Return (DBStatePrimary, None), ev)"
    using assms by (cases "dbState cfg d") simp
  then have "predictDBWALFilenames pg fl cfg d walFile = (Return (Some [], None), snd (dbState cfg d))"
    by (simp add: predictDBWALFilenames_def)
  then show ?thesis using dbState_events [of cfg d] by simp
qed

theorem predictDBWALFilenames_primary_witness:
  "fst (dbState ex_cfg (ex_db (Inr False) (Inl ErrTooLong))) = Return (DBStatePrimary, None)
   \<and> fst (predictDBWALFilenames ex_pg ex_fl ex_cfg (ex_db (Inr False) (Inl ErrTooLong))
            ''000000010000000000000000'') = Return (Some [], None)
   \<and> snd (predictDBWALFilenames ex_pg ex_fl ex_cfg (ex_db (Inr False) (Inl ErrTooLong))
            ''000000010000000000000000'') = [EvQueryRowEx ''SELECT pg_is_in_recovery()'']"
proof -
  have h: "fst (dbState ex_cfg (ex_db (Inr False) (Inl ErrTooLong))) = Return (DBStatePrimary, None)"
    by (simp add: dbState_def ex_cfg_def ex_db_def)
  have s: "snd (dbState ex_cfg (ex_db (Inr False) (Inl ErrTooLong))) =
             [EvQueryRowEx ''SELECT pg_is_in_recovery()'']"
    by (simp add: dbState_def ex_cfg_def ex_db_def)
  show ?thesis
    using h s predictDBWALFilenames_primary [OF h, of ex_pg ex_fl "''000000010000000000000000''"]
    by simp
qed

text \<open>
  C5: for a follower whose lag query returns \<open>lag\<close> without error and whose WAL
  filename parses, the byte count handed to \<open>Readahead\<close> is the smaller (as signed
  64-bit numbers) of the configured readahead and \<open>lag\<close>; the call of \<open>Readahead\<close>
  is the last event and its result is returned.
\<close>

theorem predictDBWALFilenames_clamps:
  assumes "fst (dbState cfg d) = Return (DBStateFollower, None)"
    and "fst (queryLag fl cfg d QueryLagFollower) = Return (lag, None)"
    and "ParseWalfile pg walFile = Inr (timelineID, lsn)"
  shows "(let maxBytes = (if sint (ReadaheadBytes cfg) \<le> sint lag then ReadaheadBytes cfg else lag)
          in sint maxBytes = min (sint (ReadaheadBytes cfg)) (sint lag)
             \<and> fst (predictDBWALFilenames pg fl cfg d walFile) =
                 Return (Some (Readahead pg lsn timelineID maxBytes), None)
             \<and> snd (predictDBWALFilenames pg fl cfg d walFile) =
                 snd (dbState cfg d) @ snd (queryLag fl cfg d QueryLagFollower) @
                 [EvParseWalfile walFile, EvReadahead lsn timelineID maxBytes])"
proof -
  obtain ev where s: "dbState cfg d = (Return (DBStateFollower, None), ev)"
    using assms(1) by (cases "dbState cfg d") simp
  obtain ev2 where q: "queryLag fl cfg d QueryLagFollower = (Return (lag, None), ev2)"
    using assms(2) by (cases "queryLag fl cfg d QueryLagFollower") simp
  let ?m = "if sint (ReadaheadBytes cfg) \<le> sint lag then ReadaheadBytes cfg else lag"
  have m: "sint ?m = min (sint (ReadaheadBytes cfg)) (sint lag)"
    by simp
  have "predictDBWALFilenames pg fl cfg d walFile =
      (Return (Some (Readahead pg lsn timelineID ?m), None),
       ev @ ev2 @ [EvParseWalfile walFile, EvReadahead lsn timelineID ?m])"
    using assms(3) by (simp add: predictDBWALFilenames_def s q Let_def not_less)
  then show ?thesis using m s q unfolding Let_def by simp
qed

theorem predictDBWALFilenames_clamps_witness:
  "fst (dbState ex_cfg (ex_db (Inr True) (Inr \<lparr>scans = [Inr (ex_row 7)], rowsErr = None\<rparr>))) =
     Return (DBStateFollower, None)
   \<and> fst (queryLag ex_fl ex_cfg
            (ex_db (Inr True) (Inr \<lparr>scans = [Inr (ex_row 7)], rowsErr = None\<rparr>))
            QueryLagFollower) = Return (7, None)
   \<and> ParseWalfile ex_pg ''000000010000000000000000'' = Inr (1, 0)
   \<and> ReadaheadBytes ex_cfg = 1024
   \<and> fst (predictDBWALFilenames ex_pg ex_fl ex_cfg
            (ex_db (Inr True) (Inr \<lparr>scans = [Inr (ex_row 7)], rowsErr = None\<rparr>))
            ''000000010000000000000000'') =
       Return (Some (Readahead ex_pg 0 1 7), None)
   \<and> snd (predictDBWALFilenames ex_pg ex_fl ex_cfg
            (ex_db (Inr True) (Inr \<lparr>scans = [Inr (ex_row 7)], rowsErr = None\<rparr>))
            ''000000010000000000000000'') =
       [EvQueryRowEx ''SELECT pg_is_in_recovery()'', EvQueryEx ''SELECT lag_follower'',
        EvParseWalfile ''000000010000000000000000'', EvReadahead 0 1 7]"
proof -
  let ?d = "ex_db (Inr True) (Inr \<lparr>scans = [Inr (ex_row 7)], rowsErr = None\<rparr>)"
  have h1: "fst (dbState ex_cfg ?d) = Return (DBStateFollower, None)"
    by (simp add: dbState_def ex_cfg_def ex_db_def)
  have h2: "fst (queryLag ex_fl ex_cfg ?d QueryLagFollower) = Return (7, None)"
    by (simp add: queryLag_def ex_db_def ex_fl_def ex_row_def)
  have h3: "ParseWalfile ex_pg ''000000010000000000000000'' = Inr (1, 0)"
    by (simp add: ex_pg_def)
  have r: "ReadaheadBytes ex_cfg = 1024" by (simp add: ex_cfg_def)
  have e1: "snd (dbState ex_cfg ?d) = [EvQueryRowEx ''SELECT pg_is_in_recovery()'']"
    by (simp add: dbState_def ex_cfg_def ex_db_def)
  have e2: "snd (queryLag ex_fl ex_cfg ?d QueryLagFollower) = [EvQueryEx ''SELECT lag_follower'']"
    by (simp add: queryLag_def ex_db_def lagSQL_def ex_cfg_def)
  show ?thesis
    using predictDBWALFilenames_clamps [OF h1 h2 h3] h1 h2 h3 r e1 e2
    by (simp add: Let_def)
qed

text \<open>
  C10: if \<open>dbState\<close> returns an error, \<open>predictDBWALFilenames\<close> returns the list
  holding exactly the input filename, with that error. It does so in mode "auto" when the
  recovery check fails: the error is the wrapped failure of the check.
\<close>

theorem predictDBWALFilenames_dbState_error:
  "(\<forall>state e. fst (dbState cfg d) = Return (state, Some e) \<longrightarrow>
       fst (predictDBWALFilenames pg fl cfg d walFile) = Return (Some [walFile], Some e))
   \<and> (\<forall>e. pgMode cfg = ''auto'' \<longrightarrow> inRecovery d = Inl e \<longrightarrow>
       fst (predictDBWALFilenames pg fl cfg d walFile) =
         Return (Some [walFile], Some (Wrapped e ''unable to execute primary check'')))"
proof (intro conjI allI impI)
  fix state e
  assume a: "fst (dbState cfg d) = Return (state, Some e)"
  then obtain ev where "dbState cfg d = (Return (state, Some e), ev)"
    by (cases "dbState cfg d") simp
  then show "fst (predictDBWALFilenames pg fl cfg d walFile) = Return (Some [walFile], Some e)"
    by (simp add: predictDBWALFilenames_def)
next
  fix e
  assume "pgMode cfg = ''auto''" and "inRecovery d = Inl e"
  then have "dbState cfg d =
      (Return (DBStateUnknown, Some (Wrapped e ''unable to execute primary check'')),
       [EvQueryRowEx ''SELECT pg_is_in_recovery()''])"
    by (simp add: dbState_def)
  then show "fst (predictDBWALFilenames pg fl cfg d walFile) =
         Return (Some [walFile], Some (Wrapped e ''unable to execute primary check''))"
    by (simp add: predictDBWALFilenames_def)
qed


theorem predictDBWALFilenames_dbState_error_witness:
  "pgMode ex_cfg = ''auto''
   \<and> inRecovery (ex_db (Inl (ErrExternal ''timeout'')) (Inl ErrTooLong)) =
       Inl (ErrExternal ''timeout'')
   \<and> fst (dbState ex_cfg (ex_db (Inl (ErrExternal ''timeout'')) (Inl ErrTooLong))) =
       Return (DBStateUnknown,
         Some (Wrapped (ErrExternal ''timeout'') ''unable to execute primary check''))
   \<and> fst (predictDBWALFilenames ex_pg ex_fl ex_cfg
            (ex_db (Inl (ErrExternal ''timeout'')) (Inl ErrTooLong))
            ''000000010000000000000000'') =
       Return (Some [''000000010000000000000000''],
         Some (Wrapped (ErrExternal ''timeout'') ''unable to execute primary check''))"
proof -
  let ?d = "ex_db (Inl (ErrExternal ''timeout'')) (Inl ErrTooLong) :: int db"
  have h1: "pgMode ex_cfg = ''auto''" by (simp add: ex_cfg_def)
  have h2: "inRecovery ?d = Inl (ErrExternal ''timeout'')" by (simp add: ex_db_def)
  have h3: "fst (dbState ex_cfg ?d) =
       Return (DBStateUnknown,
         Some (Wrapped (ErrExternal ''timeout'') ''unable to execute primary check''))"
    by (simp add: dbState_def ex_cfg_def ex_db_def)
  note t = predictDBWALFilenames_dbState_error
    [of ex_cfg ?d ex_pg ex_fl "''000000010000000000000000''"]
  have "fst (predictDBWALFilenames ex_pg ex_fl ex_cfg ?d ''000000010000000000000000'') =
       Return (Some [''000000010000000000000000''],
         Some (Wrapped (ErrExternal ''timeout'') ''unable to execute primary check''))"
    using t [THEN conjunct1, rule_format, OF h3] .
  moreover have "fst (predictDBWALFilenames ex_pg ex_fl ex_cfg ?d ''000000010000000000000000'') =
       Return (Some [''000000010000000000000000''],
         Some (Wrapped (ErrExternal ''timeout'') ''unable to execute primary check''))"
    using t [THEN conjunct2, rule_format, OF h1 h2] .
  ultimately show ?thesis using h1 h2 h3 by simp
qed

section \<open>Properties of getWALFilesDB\<close>

lemma dbState_no_purge: "EvWALCachePurge \<notin> set (snd (dbState cfg d))"
  by (auto simp: dbState_def Let_def split: sum.splits)

lemma queryLag_no_purge: "EvWALCachePurge \<notin> set (snd (queryLag fl cfg d lagQuery))"
  by (auto simp: queryLag_def Let_def split: QueryLag.splits sum.splits prod.splits)

lemma predictDBWALFilenames_no_purge:
  "EvWALCachePurge \<notin> set (snd (predictDBWALFilenames pg fl cfg d walFile))"
proof -
  obtain r ev where s: "dbState cfg d = (r, ev)" by (cases "dbState cfg d")
  obtain r2 ev2 where q: "queryLag fl cfg d QueryLagFollower = (r2, ev2)"
    by (cases "queryLag fl cfg d QueryLagFollower")
  have "EvWALCachePurge \<notin> set ev" using dbState_no_purge [of cfg d] s by simp
  moreover have "EvWALCachePurge \<notin> set ev2"
    using queryLag_no_purge [of fl cfg d QueryLagFollower] q by simp
  ultimately show ?thesis
    by (auto simp: predictDBWALFilenames_def s q Let_def
        split: go_ret.splits prod.splits DBState.splits sum.splits if_splits)
qed

lemma getWALFilesDB_loop_frame:
  "getWALFilesDB_loop pg fl cfg dbs timelineID i oldLSNs a numWALFiles walFiles = (r, a', ev)
   \<Longrightarrow> EvWALCachePurge \<notin> set ev \<and> lastTimelineID a' = lastTimelineID a
       \<and> walCache a' = walCache a \<and> a_pool a' = a_pool a"
proof (induction oldLSNs arbitrary: i a numWALFiles walFiles r a' ev)
  case Nil
  then show ?case by simp
next
  case (Cons oldLSN rest)
  let ?walFile = "WALFilename pg oldLSN timelineID"
  let ?a1 = "if lastWALLog a \<noteq> ?walFile then a\<lparr>lastWALLog := ?walFile\<rparr> else a"
  have a1: "lastTimelineID ?a1 = lastTimelineID a" "walCache ?a1 = walCache a"
    "a_pool ?a1 = a_pool a" by simp_all
  obtain pr pev where p: "predictDBWALFilenames pg fl cfg (dbs i) ?walFile = (pr, pev)"
    by (cases "predictDBWALFilenames pg fl cfg (dbs i) ?walFile")
  have np: "EvWALCachePurge \<notin> set pev"
    using predictDBWALFilenames_no_purge [of pg fl cfg "dbs i" ?walFile] p by simp
  show ?case
  proof (cases pr)
    case (Panic x)
    then show ?thesis using Cons.prems p np a1 by (auto simp: Let_def)
  next
    case (Return res)
    obtain predicted err where res: "res = (predicted, err)" by (cases res)
    let ?n1 = "if lastWALLog a \<noteq> ?walFile \<and> lastWALLog a \<noteq> []
               then numWALFiles + 1 else numWALFiles"
    let ?wf = "if err \<noteq> None then walFiles
               else walFiles @ (case predicted of None \<Rightarrow> [] | Some ps \<Rightarrow> ps)"
    obtain r2 a2 ev2 where
      rec: "getWALFilesDB_loop pg fl cfg dbs timelineID (i + 1) rest ?a1 ?n1 ?wf = (r2, a2, ev2)"
      by (cases "getWALFilesDB_loop pg fl cfg dbs timelineID (i + 1) rest ?a1 ?n1 ?wf")
    from Cons.IH [OF rec] a1
    have ih: "EvWALCachePurge \<notin> set ev2" "lastTimelineID a2 = lastTimelineID a"
      "walCache a2 = walCache a" "a_pool a2 = a_pool a" by simp_all
    show ?thesis
    proof (cases "err = None")
      case True
      then have "(r, a', ev) = (r2, a2, pev @ ev2)"
        using Cons.prems p Return res rec by (simp add: Let_def)
      then show ?thesis using ih np by simp
    next
      case False
      then have "(r, a', ev) =
          (r2, a2, pev @ [EvLog LevelDebug ''unable to predict DB WAL filenames''] @ ev2)"
        using Cons.prems p Return res rec by (simp add: Let_def)
      then show ?thesis using ih np by simp
    qed
  qed
qed


lemma ensureDBPool_ok:
  assumes "a_pool a \<or> newPool = None"
  shows "\<exists>ev. ensureDBPool newPool a = (None, a\<lparr>a_pool := True\<rparr>, ev) \<and> EvWALCachePurge \<notin> set ev"
  using assms by (cases "a_pool a") (auto simp: ensureDBPool_def)

lemma WALCache_Purge_empty:
  "ioc_c (wc_ioCache (WALCache_Purge wc)) = {}
   \<and> ioc_fhCache (wc_ioCache (WALCache_Purge wc)) = Map.empty"
  by (simp add: WALCache_Purge_def IOCache_Purge_def fhCache_Purge_def)

text \<open>
  C3: a pass of \<open>getWALFilesDB\<close> whose pool is available and whose query of the oldest
  LSNs returns \<open>timelineID\<close>. If the agent's last timeline id differs from it and is not
  zero, the WAL cache is purged exactly once; the purge comes right after the query and
  before the loop over the LSNs, which runs on the purged agent and purges nothing; the
  I/O cache and the file-handle cache are empty afterwards and the last timeline id is the
  new one. If the last timeline id is zero (or already the new one) nothing is purged,
  the caches are untouched, and the last timeline id is the new one.
\<close>

theorem getWALFilesDB_timeline_purge:
  assumes pool: "a_pool a \<or> newPool = None"
    and oldest: "oldest = Inr (timelineID, oldLSNs)"
    and res: "getWALFilesDB pg fl cfg newPool oldest dbs a = (r, a', evs)"
  shows
   "(lastTimelineID a \<noteq> timelineID \<and> lastTimelineID a \<noteq> 0 \<longrightarrow>
       count_list evs EvWALCachePurge = 1
       \<and> evs = snd (snd (ensureDBPool newPool a)) @ [EvQueryOldestLSNs, EvWALCachePurge] @
               snd (snd (getWALFilesDB_loop pg fl cfg dbs timelineID 0 oldLSNs
                  (a\<lparr>a_pool := True, walCache := WALCache_Purge (walCache a),
                      lastTimelineID := timelineID\<rparr>) 0 []))
       \<and> lastTimelineID a' = timelineID
       \<and> ioc_c (wc_ioCache (walCache a')) = {}
       \<and> ioc_fhCache (wc_ioCache (walCache a')) = Map.empty)
    \<and> (lastTimelineID a = 0 \<or> lastTimelineID a = timelineID \<longrightarrow>
         EvWALCachePurge \<notin> set evs
         \<and> lastTimelineID a' = timelineID
         \<and> walCache a' = walCache a)"
proof -
  obtain ev1 where e: "ensureDBPool newPool a = (None, a\<lparr>a_pool := True\<rparr>, ev1)"
    and ne1: "EvWALCachePurge \<notin> set ev1"
    using ensureDBPool_ok [OF pool] by blast
  let ?a1 = "a\<lparr>a_pool := True\<rparr>"
  obtain a2 ev2 where tc: "timelineCheck timelineID ?a1 = (a2, ev2)"
    by (cases "timelineCheck timelineID ?a1")
  obtain r3 a3 ev3 where
    lp: "getWALFilesDB_loop pg fl cfg dbs timelineID 0 oldLSNs a2 0 [] = (r3, a3, ev3)"
    by (cases "getWALFilesDB_loop pg fl cfg dbs timelineID 0 oldLSNs a2 0 []")
  from getWALFilesDB_loop_frame [OF lp]
  have fr: "EvWALCachePurge \<notin> set ev3" "lastTimelineID a3 = lastTimelineID a2"
    "walCache a3 = walCache a2" by simp_all
  have out: "a' = a3 \<and> evs = ev1 @ [EvQueryOldestLSNs] @ ev2 @ ev3"
    using res e tc lp oldest by (cases r3) (simp_all add: getWALFilesDB_def)
  show ?thesis
  proof (intro conjI impI)
    assume ch: "lastTimelineID a \<noteq> timelineID \<and> lastTimelineID a \<noteq> 0"
    then have t: "a2 = a\<lparr>a_pool := True, walCache := WALCache_Purge (walCache a),
                          lastTimelineID := timelineID\<rparr>" "ev2 = [EvWALCachePurge]"
      using tc by (simp_all add: timelineCheck_def)
    show "count_list evs EvWALCachePurge = 1"
      using out t ne1 fr(1) by (simp add: count_list_0_iff)
    show "evs = snd (snd (ensureDBPool newPool a)) @ [EvQueryOldestLSNs, EvWALCachePurge] @
               snd (snd (getWALFilesDB_loop pg fl cfg dbs timelineID 0 oldLSNs
                  (a\<lparr>a_pool := True, walCache := WALCache_Purge (walCache a),
                      lastTimelineID := timelineID\<rparr>) 0 []))"
      using out t e lp by simp
    show "lastTimelineID a' = timelineID" using out fr t by simp
    show "ioc_c (wc_ioCache (walCache a')) = {}"
      using out fr t WALCache_Purge_empty [of "walCache a"] by simp
    show "ioc_fhCache (wc_ioCache (walCache a')) = Map.empty"
      using out fr t WALCache_Purge_empty [of "walCache a"] by simp
  next
    assume z: "lastTimelineID a = 0 \<or> lastTimelineID a = timelineID"
    then have t: "lastTimelineID a2 = timelineID" "walCache a2 = walCache a" "ev2 = []"
      using tc by (auto simp: timelineCheck_def split: if_splits)
    show "EvWALCachePurge \<notin> set evs" using out t ne1 fr(1) by simp
    show "lastTimelineID a' = timelineID" using out fr t by simp
    show "walCache a' = walCache a" using out fr t by simp
  qed
qed


theorem getWALFilesDB_timeline_purge_witness:
  "lastTimelineID (ex_agent 7) \<noteq> 8 \<and> lastTimelineID (ex_agent 7) \<noteq> 0
   \<and> ioc_c (wc_ioCache (walCache (ex_agent 7))) = {ex_key}
   \<and> getWALFilesDB ex_pg ex_fl ex_cfg None (Inr (8, [0]))
        (\<lambda>i. ex_db (Inr False) (Inl ErrTooLong)) (ex_agent 7) =
      (Return (Some [], None),
       \<lparr>a_pool = True, lastTimelineID = 8, lastWALLog = ''000000010000000000000000'',
        walCache = \<lparr>wc_ioCache = \<lparr>ioc_c = {}, ioc_fhCache = Map.empty, ioWorkQueue = []\<rparr>\<rparr>\<rparr>,
       [EvNewConnPool, EvQueryOldestLSNs, EvWALCachePurge,
        EvQueryRowEx ''SELECT pg_is_in_recovery()''])
   \<and> count_list [EvNewConnPool, EvQueryOldestLSNs, EvWALCachePurge,
        EvQueryRowEx ''SELECT pg_is_in_recovery()''] EvWALCachePurge = 1
   \<and> lastTimelineID (ex_agent 0) = 0
   \<and> getWALFilesDB ex_pg ex_fl ex_cfg None (Inr (8, [0]))
        (\<lambda>i. ex_db (Inr False) (Inl ErrTooLong)) (ex_agent 0) =
      (Return (Some [], None),
       \<lparr>a_pool = True, lastTimelineID = 8, lastWALLog = ''000000010000000000000000'',
        walCache = \<lparr>wc_ioCache = ex_ioc\<rparr>\<rparr>,
       [EvNewConnPool, EvQueryOldestLSNs, EvQueryRowEx ''SELECT pg_is_in_recovery()''])"
proof -
  let ?dbs = "\<lambda>i::nat. ex_db (Inr False) (Inl ErrTooLong)"
  let ?a7 = "\<lparr>a_pool = True, lastTimelineID = 8, lastWALLog = ''000000010000000000000000'',
        walCache = \<lparr>wc_ioCache = \<lparr>ioc_c = {}, ioc_fhCache = Map.empty, ioWorkQueue = []\<rparr>\<rparr>\<rparr>"
  let ?e7 = "[EvNewConnPool, EvQueryOldestLSNs, EvWALCachePurge,
        EvQueryRowEx ''SELECT pg_is_in_recovery()'']"
  let ?a0 = "\<lparr>a_pool = True, lastTimelineID = 8, lastWALLog = ''000000010000000000000000'',
        walCache = \<lparr>wc_ioCache = ex_ioc\<rparr>\<rparr>"
  let ?e0 = "[EvNewConnPool, EvQueryOldestLSNs, EvQueryRowEx ''SELECT pg_is_in_recovery()'']"
  have p: "predictDBWALFilenames ex_pg ex_fl ex_cfg (ex_db (Inr False) (Inl ErrTooLong))
             ''000000010000000000000000'' =
           (Return (Some [], None), [EvQueryRowEx ''SELECT pg_is_in_recovery()''])"
    by (simp add: predictDBWALFilenames_def dbState_def ex_cfg_def ex_db_def)
  have w: "WALFilename ex_pg 0 8 = ''000000010000000000000000''" by (simp add: ex_pg_def)
  have r7: "getWALFilesDB ex_pg ex_fl ex_cfg None (Inr (8, [0])) ?dbs (ex_agent 7) =
              (Return (Some [], None), ?a7, ?e7)"
    by (simp add: getWALFilesDB_def ensureDBPool_def timelineCheck_def ex_agent_def
        WALCache_Purge_def IOCache_Purge_def fhCache_Purge_def ex_ioc_def p w)
  have r0: "getWALFilesDB ex_pg ex_fl ex_cfg None (Inr (8, [0])) ?dbs (ex_agent 0) =
              (Return (Some [], None), ?a0, ?e0)"
    by (simp add: getWALFilesDB_def ensureDBPool_def timelineCheck_def ex_agent_def p w)
  have pool: "a_pool (ex_agent t) \<or> (None :: go_error option) = None" for t by simp
  have h7: "lastTimelineID (ex_agent 7) \<noteq> 8 \<and> lastTimelineID (ex_agent 7) \<noteq> 0"
    by (simp add: ex_agent_def)
  have h0: "lastTimelineID (ex_agent 0) = 0" by (simp add: ex_agent_def)
  have c7: "count_list ?e7 EvWALCachePurge = 1"
    using getWALFilesDB_timeline_purge [OF pool refl r7] h7 by blast
  have l0: "lastTimelineID ?a0 = 8"
    using getWALFilesDB_timeline_purge [OF pool refl r0] h0 by blast
  have k: "ioc_c (wc_ioCache (walCache (ex_agent 7))) = {ex_key}"
    by (simp add: ex_agent_def ex_ioc_def)
  show ?thesis using h7 k r7 c7 h0 r0 by simp
qed

section \<open>Properties of the I/O cache worker\<close>




end
